theory Spec2Isabelle
  imports Main "HOL-Library.Word"
begin

unbundle bit_operations_syntax

section \<open>The JavaScript and Node operations the parser relies on\<close>

text \<open>
  A Node \<open>Buffer\<close> is a sequence of bytes. Every number the parser computes is a
  non-negative integer (a byte, a sum or product of bytes, an offset), so JavaScript
  numbers are modelled as \<open>nat\<close>; a value that may be \<open>undefined\<close> is a
  \<open>nat option\<close> with \<open>None\<close> for \<open>undefined\<close>. A thrown exception is the
  \<open>Inl\<close> branch of a sum.
\<close>

type_synonym Buffer = "8 word list"

datatype error = RangeError | TypeError | Error string

text \<open>\<open>buffer[i]\<close>: the byte as a number, \<open>undefined\<close> outside the buffer.\<close>

definition at :: "Buffer \<Rightarrow> nat \<Rightarrow> nat option" where
  "at buffer i = (if i < length buffer then Some (unat (buffer ! i)) else None)"

text \<open>\<open>buffer.subarray(start, end)\<close>: both ends are clamped to the buffer, never throws.\<close>

definition subarray :: "Buffer \<Rightarrow> nat \<Rightarrow> nat \<Rightarrow> Buffer" where
  "subarray buffer start end = take (end - start) (drop start buffer)"

text \<open>
  \<open>buffer.readUInt16LE(offset)\<close>: Node reads \<open>this[offset]\<close> and \<open>this[offset + 1]\<close>
  and throws a \<open>RangeError\<close> when either is \<open>undefined\<close>.
\<close>

definition readUInt16LE :: "Buffer \<Rightarrow> nat \<Rightarrow> error + nat" where
  "readUInt16LE buffer offset =
     (case (at buffer offset, at buffer (offset + 1)) of
        (Some first', Some last') \<Rightarrow> Inr (first' + last' * 2 ^ 8)
      | _ \<Rightarrow> Inl RangeError)"

text \<open>\<open>v & mask\<close>: \<open>undefined\<close> is converted to 0 before the bitwise and.\<close>

definition bitand :: "nat option \<Rightarrow> nat \<Rightarrow> nat" where
  "bitand v m = (case v of None \<Rightarrow> 0 | Some n \<Rightarrow> n AND m)"

definition Boolean :: "nat \<Rightarrow> bool" where
  "Boolean n = (n \<noteq> 0)"

text \<open>\<open>n.toString(16)\<close> on a non-negative integer: lowercase digits, no padding.\<close>

definition hexDigit :: "nat \<Rightarrow> char" where
  "hexDigit d = ''0123456789abcdef'' ! d"

fun toString16 :: "nat \<Rightarrow> string" where
  "toString16 n =
     (if n < 16 then [hexDigit n] else toString16 (n div 16) @ [hexDigit (n mod 16)])"

declare toString16.simps [simp del]

text \<open>\<open>Buffer.from(numbers)\<close>: each entry is truncated to a byte, \<open>undefined\<close> becomes 0.\<close>

definition Buffer_from :: "nat option list \<Rightarrow> Buffer" where
  "Buffer_from xs = map (\<lambda>v. case v of None \<Rightarrow> 0 | Some n \<Rightarrow> of_nat n) xs"

section \<open>The record types of \<open>types.ts\<close>\<close>

text \<open>
  \<open>Buffer.toString()\<close> (UTF-8 decoding) and \<open>convertRGBToLab\<close> (floating-point
  arithmetic) are total functions whose values no property below depends on. The parser
  takes them as the parameters \<open>toString\<close> and \<open>convertRGBToLab\<close>; their result
  types are the type parameters \<open>'str\<close> and \<open>'lab\<close>.
\<close>

record HexColour =
  "value" :: string

record RgbColour =
  r :: nat
  g :: nat
  b :: nat

record 'lab Color =
  rgbValues :: RgbColour
  labValues :: 'lab
  hexValue :: HexColour

record 'str HeaderBlock =
  signature :: 'str
  version :: 'str

record LogicalScreenDescriptor =
  width :: nat
  height :: nat
  globalColorTableFlag :: bool
  colorResolution :: nat
  colorResolutionValue :: nat
  sortFlag :: bool
  backgroundColorIndex :: "nat option"
  pixelAspectRatio :: "nat option"

record GraphicsControlExtension =
  disposalMethod :: nat
  userInputFlag :: bool
  transparentColorFlag :: bool
  delayTime :: nat
  transparentColorIndex :: "nat option"

record ImageDescriptor =
  imageLeftPosition :: nat
  imageTopPosition :: nat
  imageWidth :: nat
  imageHeight :: nat
  localColorTableFlag :: bool
  interlaceFlag :: bool
  localColorTableSize :: nat

section \<open>The decoders of \<open>gif-parser.ts\<close>\<close>

subsection \<open>\<open>parseHeaderBlock\<close>\<close>

definition parseHeaderBlock :: "(Buffer \<Rightarrow> 'str) \<Rightarrow> Buffer \<Rightarrow> 'str HeaderBlock" where
  "parseHeaderBlock toString buffer =
     (let signature' = toString (subarray buffer 0 3);
          version' = toString (subarray buffer 3 6)
      in \<lparr>signature = signature', version = version'\<rparr>)"

subsection \<open>\<open>parseLogicalScreenDescriptor\<close>\<close>

definition parseLogicalScreenDescriptor :: "Buffer \<Rightarrow> error + LogicalScreenDescriptor" where
  "parseLogicalScreenDescriptor buffer =
     (let descriptorBuffer = subarray buffer 6 13 in
      case readUInt16LE descriptorBuffer 0 of Inl e \<Rightarrow> Inl e | Inr width' \<Rightarrow>
      case readUInt16LE descriptorBuffer 2 of Inl e \<Rightarrow> Inl e | Inr height' \<Rightarrow>
      let globalColorTableFlag' = Boolean (bitand (at descriptorBuffer 4) 0b10000000);
          colorResolution' = drop_bit 4 (bitand (at descriptorBuffer 4) 0b01110000);
          colorResolutionValue' = 2 ^ (colorResolution' + 1);
          sortFlag' = Boolean (bitand (at descriptorBuffer 4) 0b00001000);
          backgroundColorIndex' = at descriptorBuffer 5;
          pixelAspectRatio' = at descriptorBuffer 6
      in Inr \<lparr>width = width', height = height',
               globalColorTableFlag = globalColorTableFlag',
               colorResolution = colorResolution',
               colorResolutionValue = colorResolutionValue',
               sortFlag = sortFlag',
               backgroundColorIndex = backgroundColorIndex',
               pixelAspectRatio = pixelAspectRatio'\<rparr>)"

text \<open>
  The earlier revision of the class kept in the same source file differs in one line:
  \<open>colorResolutionValue = 1 << colorResolution\<close>.
\<close>

definition parseLogicalScreenDescriptor_first :: "Buffer \<Rightarrow> error + LogicalScreenDescriptor" where
  "parseLogicalScreenDescriptor_first buffer =
     (let descriptorBuffer = subarray buffer 6 13 in
      case readUInt16LE descriptorBuffer 0 of Inl e \<Rightarrow> Inl e | Inr width' \<Rightarrow>
      case readUInt16LE descriptorBuffer 2 of Inl e \<Rightarrow> Inl e | Inr height' \<Rightarrow>
      let globalColorTableFlag' = Boolean (bitand (at descriptorBuffer 4) 0b10000000);
          colorResolution' = drop_bit 4 (bitand (at descriptorBuffer 4) 0b01110000);
          colorResolutionValue' = push_bit colorResolution' 1;
          sortFlag' = Boolean (bitand (at descriptorBuffer 4) 0b00001000);
          backgroundColorIndex' = at descriptorBuffer 5;
          pixelAspectRatio' = at descriptorBuffer 6
      in Inr \<lparr>width = width', height = height',
               globalColorTableFlag = globalColorTableFlag',
               colorResolution = colorResolution',
               colorResolutionValue = colorResolutionValue',
               sortFlag = sortFlag',
               backgroundColorIndex = backgroundColorIndex',
               pixelAspectRatio = pixelAspectRatio'\<rparr>)"

subsection \<open>\<open>parseColorTable\<close>\<close>

text \<open>
  The loop \<open>for (let i = 0; i < buffer.length; i += 3)\<close>. Calling \<open>toString\<close> on
  \<open>undefined\<close> throws a \<open>TypeError\<close>; the three calls are evaluated from left to
  right.
\<close>

function parseColorTable_for ::
  "(nat \<Rightarrow> nat \<Rightarrow> nat \<Rightarrow> 'lab) \<Rightarrow> Buffer \<Rightarrow> nat \<Rightarrow> 'lab Color list \<Rightarrow> error + 'lab Color list" where
  "parseColorTable_for convertRGBToLab buffer i colors =
     (if i < length buffer then
        (case at buffer i of None \<Rightarrow> Inl TypeError | Some red \<Rightarrow>
         case at buffer (i + 1) of None \<Rightarrow> Inl TypeError | Some green \<Rightarrow>
         case at buffer (i + 2) of None \<Rightarrow> Inl TypeError | Some blue \<Rightarrow>
           parseColorTable_for convertRGBToLab buffer (i + 3)
             (colors @
              [\<lparr>rgbValues = \<lparr>r = red, g = green, b = blue\<rparr>,
                labValues = convertRGBToLab red green blue,
                hexValue =
                  \<lparr>value = ''#'' @ toString16 red @ toString16 green @ toString16 blue\<rparr>\<rparr>]))
      else Inr colors)"
  by pat_completeness auto
termination
  by (relation "measure (\<lambda>(c, buffer, i, colors). length buffer - i)") auto

declare parseColorTable_for.simps [simp del]

definition parseColorTable ::
  "(nat \<Rightarrow> nat \<Rightarrow> nat \<Rightarrow> 'lab) \<Rightarrow> Buffer \<Rightarrow> error + 'lab Color list" where
  "parseColorTable convertRGBToLab buffer = parseColorTable_for convertRGBToLab buffer 0 []"

subsection \<open>\<open>parseGraphicsControlExtension\<close>\<close>

definition parseGraphicsControlExtension :: "Buffer \<Rightarrow> error + GraphicsControlExtension" where
  "parseGraphicsControlExtension buffer =
     (let disposalMethod' = drop_bit 2 (bitand (at buffer 3) 0b00011100);
          userInputFlag' = Boolean (bitand (at buffer 3) 0b00000010);
          transparentColorFlag' = Boolean (bitand (at buffer 3) 0b00000001)
      in case readUInt16LE buffer 4 of Inl e \<Rightarrow> Inl e | Inr delayTime' \<Rightarrow>
         let transparentColorIndex' = at buffer 6
         in Inr \<lparr>disposalMethod = disposalMethod',
                  userInputFlag = userInputFlag',
                  transparentColorFlag = transparentColorFlag',
                  delayTime = delayTime',
                  transparentColorIndex = transparentColorIndex'\<rparr>)"

subsection \<open>\<open>parseImageDescriptor\<close>\<close>

definition parseImageDescriptor :: "Buffer \<Rightarrow> error + ImageDescriptor" where
  "parseImageDescriptor buffer =
     (let packed = at buffer 9 in
      case readUInt16LE buffer 0 of Inl e \<Rightarrow> Inl e | Inr left' \<Rightarrow>
      case readUInt16LE buffer 2 of Inl e \<Rightarrow> Inl e | Inr top' \<Rightarrow>
      case readUInt16LE buffer 4 of Inl e \<Rightarrow> Inl e | Inr width' \<Rightarrow>
      case readUInt16LE buffer 6 of Inl e \<Rightarrow> Inl e | Inr height' \<Rightarrow>
        Inr \<lparr>imageLeftPosition = left',
             imageTopPosition = top',
             imageWidth = width',
             imageHeight = height',
             localColorTableFlag = Boolean (bitand packed 0b10000000),
             interlaceFlag = Boolean (bitand packed 0b01000000),
             localColorTableSize = bitand packed 0b00000111\<rparr>)"

subsection \<open>\<open>parseImageData\<close>\<close>

text \<open>
  The inner loop \<open>for (let i = 0; i < blockSize; i++)\<close> pushes \<open>buffer[offset]\<close>
  (possibly \<open>undefined\<close>) and advances \<open>offset\<close>. With \<open>blockSize\<close> undefined the
  comparison \<open>i < blockSize\<close> is false. It returns the new offset and the new array.
\<close>

function parseImageData_for ::
  "Buffer \<Rightarrow> nat option \<Rightarrow> nat \<Rightarrow> nat \<Rightarrow> nat option list \<Rightarrow> nat \<times> nat option list" where
  "parseImageData_for buffer blockSize i offset imageData' =
     (if (case blockSize of None \<Rightarrow> False | Some n \<Rightarrow> i < n)
      then parseImageData_for buffer blockSize (i + 1) (offset + 1)
             (imageData' @ [at buffer offset])
      else (offset, imageData'))"
  by pat_completeness auto
termination
  by (relation "measure (\<lambda>(buffer, blockSize, i, offset, d). the blockSize - i)")
     (auto split: option.splits)

declare parseImageData_for.simps [simp del]

text \<open>
  The outer loop \<open>while (buffer[offset] !== 0x00)\<close>. Outside the buffer the byte read is
  \<open>undefined\<close>, which is not \<open>0x00\<close>, so the loop goes on: it need not come to an
  end, and \<open>None\<close> is the run that never returns.
\<close>

partial_function (option) parseImageData_while ::
  "Buffer \<Rightarrow> nat \<Rightarrow> nat option list \<Rightarrow> nat option list option" where
  "parseImageData_while buffer offset imageData' =
     (if at buffer offset \<noteq> Some 0x00 then
        parseImageData_while buffer
          (fst (parseImageData_for buffer (at buffer offset) 0 (offset + 1) imageData'))
          (snd (parseImageData_for buffer (at buffer offset) 0 (offset + 1) imageData'))
      else Some imageData')"

declare parseImageData_while.simps [code]

definition parseImageData :: "Buffer \<Rightarrow> nat \<Rightarrow> Buffer option" where
  "parseImageData buffer offset =
     map_option Buffer_from (parseImageData_while buffer (offset + 1) [])"

subsection \<open>\<open>parseImages\<close>\<close>

record 'lab Image =
  imageDescriptor :: ImageDescriptor
  localColorTable :: "'lab Color list option"
  imageData :: Buffer

text \<open>
  The scanning loop \<open>while (offset < buffer.length)\<close>. Every iteration moves
  \<open>offset\<close> forward, so the loop itself comes to an end; the result is \<open>None\<close> only
  when a call of \<open>parseImageData\<close> never returns, and \<open>Some (Inl e)\<close> when a
  decoder throws.
\<close>

function parseImages_while ::
  "(nat \<Rightarrow> nat \<Rightarrow> nat \<Rightarrow> 'lab) \<Rightarrow> Buffer \<Rightarrow> nat \<Rightarrow> 'lab Image list \<Rightarrow>
   (error + 'lab Image list) option" where
  "parseImages_while convertRGBToLab buffer offset images' =
     (if offset < length buffer then
        (if at buffer offset \<noteq> Some 0x2c then
           parseImages_while convertRGBToLab buffer (offset + 1) images'
         else
           (let imageDescriptorBuffer = subarray buffer (offset + 1) (offset + 11) in
            case parseImageDescriptor imageDescriptorBuffer of
              Inl e \<Rightarrow> Some (Inl e)
            | Inr imageDescriptor' \<Rightarrow>
                (if localColorTableFlag imageDescriptor' then
                   (let localColorTableSize' =
                          2 ^ (bitand (Some (localColorTableSize imageDescriptor')) 0b00000111 + 1);
                        localColorTableBuffer =
                          subarray buffer (offset + 11) (offset + 11 + 3 * localColorTableSize')
                    in case parseColorTable convertRGBToLab localColorTableBuffer of
                         Inl e \<Rightarrow> Some (Inl e)
                       | Inr localColorTable' \<Rightarrow>
                           (case parseImageData buffer (offset + 11 + 3 * localColorTableSize' + 1) of
                              None \<Rightarrow> None
                            | Some imageData' \<Rightarrow>
                                parseImages_while convertRGBToLab buffer
                                  (offset + 11 + 3 * localColorTableSize' + 1
                                     + (length imageData' + 1))
                                  (images' @
                                   [\<lparr>imageDescriptor = imageDescriptor',
                                     localColorTable = Some localColorTable',
                                     imageData = imageData'\<rparr>])))
                 else
                   (case parseImageData buffer (offset + 11 + 1) of
                      None \<Rightarrow> None
                    | Some imageData' \<Rightarrow>
                        parseImages_while convertRGBToLab buffer
                          (offset + 11 + 1 + (length imageData' + 1))
                          (images' @
                           [\<lparr>imageDescriptor = imageDescriptor',
                             localColorTable = None,
                             imageData = imageData'\<rparr>])))))
      else Some (Inr images'))"
  by pat_completeness auto
termination
  by (relation "measure (\<lambda>(c, buffer, offset, images'). length buffer - offset)") auto

declare parseImages_while.simps [simp del]

definition parseImages ::
  "(nat \<Rightarrow> nat \<Rightarrow> nat \<Rightarrow> 'lab) \<Rightarrow> Buffer \<Rightarrow> (error + 'lab Image list) option" where
  "parseImages convertRGBToLab buffer = parseImages_while convertRGBToLab buffer 7 []"

section \<open>The class \<open>GifParser\<close>\<close>

text \<open>
  The object's fields, each \<open>undefined\<close> (\<open>None\<close>) until the constructor assigns it.
\<close>

record ('str, 'lab) GifParser =
  binValue :: "Buffer option"
  headerBlock :: "'str HeaderBlock option"
  logicalScreenDescriptor :: "LogicalScreenDescriptor option"
  hasGlobalColorTable :: "bool option"
  globalColorTable :: "'lab Color list option"
  graphicsControlExtension :: "GraphicsControlExtension option"
  images :: "'lab Image list option"

definition new_GifParser :: "('str, 'lab) GifParser" where
  "new_GifParser =
     \<lparr>binValue = None, headerBlock = None, logicalScreenDescriptor = None,
      hasGlobalColorTable = None, globalColorTable = None,
      graphicsControlExtension = None, images = None\<rparr>"

subsection \<open>\<open>parseGlobalColorTable\<close>\<close>

text \<open>
  The method reads the fields \<open>hasGlobalColorTable\<close> and \<open>logicalScreenDescriptor\<close>
  of the object; \<open>!this.hasGlobalColorTable\<close> holds for \<open>false\<close> and for
  \<open>undefined\<close>.
\<close>

definition parseGlobalColorTable ::
  "(nat \<Rightarrow> nat \<Rightarrow> nat \<Rightarrow> 'lab) \<Rightarrow> ('str, 'lab) GifParser \<Rightarrow> Buffer \<Rightarrow> error + 'lab Color list" where
  "parseGlobalColorTable convertRGBToLab this buffer =
     (if hasGlobalColorTable this \<noteq> Some True then Inr []
      else case logicalScreenDescriptor this of
        None \<Rightarrow>
          Inl (Error ''The logicalScreenDescriptor is undefined. This should not happen.'')
      | Some lsd \<Rightarrow>
          (let colorTableSize = 2 ^ (colorResolution lsd + 1);
               colorTableBuffer = subarray buffer 13 (13 + 3 * colorTableSize)
           in parseColorTable convertRGBToLab colorTableBuffer))"

subsection \<open>The constructor\<close>

text \<open>
  The constructor, from the buffer that \<open>loadGif\<close> returned. The assignments run in
  the order of the source; the first decoder that throws ends the construction with its
  error, and a scan that never returns leaves no object at all (\<open>None\<close>).
\<close>

definition constructor ::
  "(Buffer \<Rightarrow> 'str) \<Rightarrow> (nat \<Rightarrow> nat \<Rightarrow> nat \<Rightarrow> 'lab) \<Rightarrow> Buffer \<Rightarrow>
   (error + ('str, 'lab) GifParser) option" where
  "constructor toString convertRGBToLab loaded =
     (let this1 = new_GifParser\<lparr>binValue := Some loaded\<rparr>;
          this2 = this1\<lparr>headerBlock := Some (parseHeaderBlock toString loaded)\<rparr>
      in case parseLogicalScreenDescriptor loaded of
           Inl e \<Rightarrow> Some (Inl e)
         | Inr lsd \<Rightarrow>
             (let this3 = this2\<lparr>logicalScreenDescriptor := Some lsd\<rparr>;
                  this4 = this3\<lparr>hasGlobalColorTable := Some (globalColorTableFlag lsd)\<rparr>
              in case parseGlobalColorTable convertRGBToLab this4 loaded of
                   Inl e \<Rightarrow> Some (Inl e)
                 | Inr colors \<Rightarrow>
                     (let this5 = this4\<lparr>globalColorTable := Some colors\<rparr>
                      in case parseGraphicsControlExtension loaded of
                           Inl e \<Rightarrow> Some (Inl e)
                         | Inr gce \<Rightarrow>
                             (let this6 = this5\<lparr>graphicsControlExtension := Some gce\<rparr>
                              in case parseImages convertRGBToLab loaded of
                                   None \<Rightarrow> None
                                 | Some (Inl e) \<Rightarrow> Some (Inl e)
                                 | Some (Inr imgs) \<Rightarrow>
                                     Some (Inr (this6\<lparr>images := Some imgs\<rparr>))))))"

subsection \<open>The accessors\<close>

text \<open>
  Each accessor is \<open>this.field ?? throw\<close>: the field when it is not \<open>undefined\<close>, an
  \<open>Error\<close> with the accessor's message otherwise. An empty array is a value.
\<close>

definition getHeaderBlock :: "('str, 'lab) GifParser \<Rightarrow> error + 'str HeaderBlock" where
  "getHeaderBlock this =
     (case headerBlock this of Some v \<Rightarrow> Inr v
      | None \<Rightarrow> Inl (Error ''The headerBlock is undefined''))"

definition getBinValue :: "('str, 'lab) GifParser \<Rightarrow> error + Buffer" where
  "getBinValue this =
     (case binValue this of Some v \<Rightarrow> Inr v
      | None \<Rightarrow> Inl (Error ''The binValue is undefined''))"

definition getLogicalScreenDescriptor ::
  "('str, 'lab) GifParser \<Rightarrow> error + LogicalScreenDescriptor" where
  "getLogicalScreenDescriptor this =
     (case logicalScreenDescriptor this of Some v \<Rightarrow> Inr v
      | None \<Rightarrow> Inl (Error ''The logicalScreenDescriptor is undefined''))"

definition getGlobalColorTable :: "('str, 'lab) GifParser \<Rightarrow> error + 'lab Color list" where
  "getGlobalColorTable this =
     (case globalColorTable this of Some v \<Rightarrow> Inr v
      | None \<Rightarrow> Inl (Error ''The globalColorTable is undefined''))"

definition getGraphicsControlExtension ::
  "('str, 'lab) GifParser \<Rightarrow> error + GraphicsControlExtension" where
  "getGraphicsControlExtension this =
     (case graphicsControlExtension this of Some v \<Rightarrow> Inr v
      | None \<Rightarrow> Inl (Error ''The graphicsControlExtension is undefined''))"

definition getImages :: "('str, 'lab) GifParser \<Rightarrow> error + 'lab Image list" where
  "getImages this =
     (case images this of Some v \<Rightarrow> Inr v
      | None \<Rightarrow> Inl (Error ''The images is undefined''))"

subsection \<open>The two parameters in concrete evaluations\<close>

text \<open>
  Where a property is evaluated on a concrete buffer, \<open>toString\<close> is instantiated with
  the decoding of ASCII bytes (on which UTF-8 decoding is the identity on code points) and
  \<open>convertRGBToLab\<close> with a function that keeps no Lab value.
\<close>

definition ascii :: "Buffer \<Rightarrow> string" where
  "ascii buffer = map (\<lambda>w. char_of (unat w)) buffer"

definition noLab :: "nat \<Rightarrow> nat \<Rightarrow> nat \<Rightarrow> unit" where
  "noLab red green blue = ()"

section \<open>Facts about the runtime operations\<close>

lemma at_subarray:
  "at (subarray buffer s e) i = (if i < e - s then at buffer (s + i) else None)"
  by (auto simp: at_def subarray_def)

lemma at_Some: "i < length buffer \<Longrightarrow> at buffer i = Some (unat (buffer ! i))"
  by (simp add: at_def)

lemma at_None: "length buffer \<le> i \<Longrightarrow> at buffer i = None"
  by (simp add: at_def)

lemma bits_2_0: "(n::nat) AND 0b00000111 = n mod 8"
proof -
  have "(7::nat) = mask 3" by (simp add: mask_eq_exp_minus_1)
  then have "n AND 7 = take_bit 3 n"
    by (simp add: take_bit_eq_mask)
  thus ?thesis by (simp add: take_bit_eq_mod)
qed

lemma bitand_bits_2_0: "bitand (Some n) 0b00000111 = n mod 8"
  by (simp add: bitand_def bits_2_0)

lemma bitand_bits_6_4: "drop_bit 4 (bitand (Some n) 0b01110000) = (n div 16) mod 8"
proof -
  have "drop_bit 4 (n AND 112) = drop_bit 4 n AND 7" by simp
  also have "\<dots> = drop_bit 4 n mod 8" by (rule bits_2_0)
  finally show ?thesis by (simp add: bitand_def drop_bit_eq_div)
qed

lemma bitand_bits_4_2: "drop_bit 2 (bitand (Some n) 0b00011100) = (n div 4) mod 8"
proof -
  have "drop_bit 2 (n AND 28) = drop_bit 2 n AND 7" by simp
  also have "\<dots> = drop_bit 2 n mod 8" by (rule bits_2_0)
  finally show ?thesis by (simp add: bitand_def drop_bit_eq_div)
qed

lemma Boolean_bitand: "Boolean (bitand (Some n) (2 ^ k)) = bit n k"
  by (simp add: Boolean_def bitand_def and_exp_eq_0_iff_not_bit)

lemma Boolean_bitand_bit0: "Boolean (bitand (Some n) (Suc 0)) = bit n 0"
  using Boolean_bitand [of n 0] by simp

lemma Boolean_bitand_bit1: "Boolean (bitand (Some n) 0b00000010) = bit n 1"
  using Boolean_bitand [of n 1] by simp

lemma Boolean_bitand_bit3: "Boolean (bitand (Some n) 0b00001000) = bit n 3"
  using Boolean_bitand [of n 3] by simp

lemma Boolean_bitand_bit7: "Boolean (bitand (Some n) 0b10000000) = bit n 7"
  using Boolean_bitand [of n 7] by simp

lemma bitand_None: "bitand None m = 0"
  by (simp add: bitand_def)

lemma pow2_range: "k \<le> 7 \<Longrightarrow> (2::nat) ^ (k + 1) \<in> {2, 4, 8, 16, 32, 64, 128, 256}"
proof -
  assume "k \<le> 7"
  then have "k \<in> {0, 1, 2, 3, 4, 5, 6, 7}" by auto
  then show ?thesis by auto
qed

lemma readUInt16LE_Some:
  "offset + 1 < length buffer \<Longrightarrow>
   readUInt16LE buffer offset = Inr (unat (buffer ! offset) + 256 * unat (buffer ! (offset + 1)))"
  by (simp add: readUInt16LE_def at_def)

lemma readUInt16LE_None:
  "length buffer \<le> offset + 1 \<Longrightarrow> readUInt16LE buffer offset = Inl RangeError"
  by (simp add: readUInt16LE_def at_def)

lemma readUInt16LE_subarray:
  "offset + 1 < e - s \<Longrightarrow>
   readUInt16LE (subarray buffer s e) offset = readUInt16LE buffer (s + offset)"
  by (simp add: readUInt16LE_def at_subarray add.assoc)

section \<open>The logical screen descriptor\<close>

lemma parseLogicalScreenDescriptor_13:
  assumes "13 \<le> length buffer"
  shows "parseLogicalScreenDescriptor buffer =
      Inr \<lparr>width = unat (buffer ! 6) + 256 * unat (buffer ! 7),
           height = unat (buffer ! 8) + 256 * unat (buffer ! 9),
           globalColorTableFlag = bit (unat (buffer ! 10)) 7,
           colorResolution = (unat (buffer ! 10) div 16) mod 8,
           colorResolutionValue = 2 ^ ((unat (buffer ! 10) div 16) mod 8 + 1),
           sortFlag = bit (unat (buffer ! 10)) 3,
           backgroundColorIndex = Some (unat (buffer ! 11)),
           pixelAspectRatio = Some (unat (buffer ! 12))\<rparr>"
  using assms
  by (simp add: parseLogicalScreenDescriptor_def Let_def readUInt16LE_subarray readUInt16LE_Some
        at_subarray at_Some bitand_bits_6_4 Boolean_bitand_bit7 Boolean_bitand_bit3)

text \<open>
  C5. For every buffer of at least 13 bytes the decoder returns a descriptor whose
  \<open>colorResolution\<close> is bits 6 to 4 of the packed byte at offset 10, hence at most 7,
  and whose \<open>colorResolutionValue\<close> is \<open>2 ^ (colorResolution + 1)\<close>, one of
  2, 4, 8, 16, 32, 64, 128, 256.
\<close>

theorem parseLogicalScreenDescriptor_colorResolutionValue:
  assumes "13 \<le> length buffer"
  shows "\<exists>lsd. parseLogicalScreenDescriptor buffer = Inr lsd
     \<and> colorResolution lsd = (unat (buffer ! 10) div 16) mod 8
     \<and> colorResolution lsd \<le> 7
     \<and> colorResolutionValue lsd = 2 ^ (colorResolution lsd + 1)
     \<and> colorResolutionValue lsd \<in> {2, 4, 8, 16, 32, 64, 128, 256}"
proof -
  let ?cr = "(unat (buffer ! 10) div 16) mod 8"
  have le: "?cr \<le> 7" by simp
  show ?thesis
    unfolding parseLogicalScreenDescriptor_13 [OF assms] using le pow2_range [OF le] by simp
qed

theorem parseLogicalScreenDescriptor_colorResolutionValue_witness:
  "13 \<le> length [71, 73, 70, 56, 57, 97, 1, 0, 1, 0, 0x91, 0, 0 :: 8 word] \<and>
   (\<exists>lsd. parseLogicalScreenDescriptor [71, 73, 70, 56, 57, 97, 1, 0, 1, 0, 0x91, 0, 0] = Inr lsd
      \<and> colorResolution lsd = 1 \<and> colorResolutionValue lsd = 4)"
  using parseLogicalScreenDescriptor_colorResolutionValue
          [of "[71, 73, 70, 56, 57, 97, 1, 0, 1, 0, 0x91, 0, 0]"]
  by auto

text \<open>
  The earlier revision of the decoder returns \<open>2 ^ colorResolution\<close>, half the value
  of the current one.
\<close>

lemma parseLogicalScreenDescriptor_first_value:
  assumes "13 \<le> length buffer"
  shows "\<exists>lsd. parseLogicalScreenDescriptor_first buffer = Inr lsd
     \<and> colorResolution lsd = (unat (buffer ! 10) div 16) mod 8
     \<and> colorResolutionValue lsd = 2 ^ colorResolution lsd"
  using assms
  by (simp add: parseLogicalScreenDescriptor_first_def Let_def readUInt16LE_subarray
        readUInt16LE_Some at_subarray at_Some bitand_bits_6_4 push_bit_eq_mult)

section \<open>The graphics control extension\<close>

text \<open>
  C8. For every buffer of at least 7 bytes the decoder returns a record in which
  \<open>disposalMethod\<close> is bits 4 to 2 of the byte at offset 3, \<open>userInputFlag\<close> is its
  bit 1, \<open>transparentColorFlag\<close> its bit 0, \<open>delayTime\<close> the unsigned little-endian
  16-bit value at offsets 4 and 5, and \<open>transparentColorIndex\<close> the byte at offset 6.
\<close>

theorem parseGraphicsControlExtension_fields:
  assumes "7 \<le> length buffer"
  shows "parseGraphicsControlExtension buffer =
     Inr \<lparr>disposalMethod = (unat (buffer ! 3) div 4) mod 8,
          userInputFlag = bit (buffer ! 3) 1,
          transparentColorFlag = bit (buffer ! 3) 0,
          delayTime = unat (buffer ! 4) + 256 * unat (buffer ! 5),
          transparentColorIndex = Some (unat (buffer ! 6))\<rparr>"
  using assms
  by (simp add: parseGraphicsControlExtension_def Let_def readUInt16LE_Some at_Some
        bitand_bits_4_2 Boolean_bitand_bit1 Boolean_bitand_bit0 bit_unsigned_iff)

theorem parseGraphicsControlExtension_fields_witness:
  "7 \<le> length [71, 73, 70, 0x1D, 0x34, 0x12, 9 :: 8 word] \<and>
   parseGraphicsControlExtension [71, 73, 70, 0x1D, 0x34, 0x12, 9] =
     Inr \<lparr>disposalMethod = 7, userInputFlag = False, transparentColorFlag = True,
          delayTime = 0x1234, transparentColorIndex = Some 9\<rparr>"
  using parseGraphicsControlExtension_fields [of "[71, 73, 70, 0x1D, 0x34, 0x12, 9]"]
  by simp

section \<open>Truncated buffers\<close>

lemma readUInt16LE_subarray_if:
  "readUInt16LE (subarray buffer s e) offset =
     (if offset + 1 < e - s then readUInt16LE buffer (s + offset) else Inl RangeError)"
  by (auto simp: readUInt16LE_def at_subarray add.assoc split: option.splits)

lemma readUInt16LE_if:
  "readUInt16LE buffer offset =
     (if offset + 1 < length buffer
      then Inr (unat (buffer ! offset) + 256 * unat (buffer ! (offset + 1)))
      else Inl RangeError)"
  by (simp add: readUInt16LE_def at_def)

lemma parseLogicalScreenDescriptor_short:
  assumes "length buffer < 10"
  shows "parseLogicalScreenDescriptor buffer = Inl RangeError"
  using assms
  apply (simp only: parseLogicalScreenDescriptor_def Let_def readUInt16LE_subarray_if)
  apply (simp add: readUInt16LE_if)
  done

lemma parseLogicalScreenDescriptor_10:
  assumes "10 \<le> length buffer"
  shows "parseLogicalScreenDescriptor buffer =
      Inr \<lparr>width = unat (buffer ! 6) + 256 * unat (buffer ! 7),
           height = unat (buffer ! 8) + 256 * unat (buffer ! 9),
           globalColorTableFlag = Boolean (bitand (at buffer 10) 0b10000000),
           colorResolution = drop_bit 4 (bitand (at buffer 10) 0b01110000),
           colorResolutionValue = 2 ^ (drop_bit 4 (bitand (at buffer 10) 0b01110000) + 1),
           sortFlag = Boolean (bitand (at buffer 10) 0b00001000),
           backgroundColorIndex = at buffer 11,
           pixelAspectRatio = at buffer 12\<rparr>"
  using assms
  apply (simp only: parseLogicalScreenDescriptor_def Let_def readUInt16LE_subarray_if at_subarray)
  apply (simp add: readUInt16LE_if)
  done

text \<open>
  C4, as the code has it. Decoding the logical screen descriptor fails with a
  \<open>RangeError\<close> when the buffer has fewer than 10 bytes. With 10 bytes or more it
  returns a record whose \<open>backgroundColorIndex\<close> and \<open>pixelAspectRatio\<close> are the
  reads of offsets 11 and 12, \<open>undefined\<close> when the byte is absent; with exactly 10
  bytes the packed byte is absent too and its fields are those of a zero byte. Decoding
  the header never fails: it decodes whatever bytes the buffer has at offsets 0 to 2 and
  3 to 5.
\<close>

theorem truncated_buffer_decoding:
  "(length buffer < 10 \<longrightarrow> parseLogicalScreenDescriptor buffer = Inl RangeError)
   \<and> (10 \<le> length buffer \<longrightarrow>
        (\<exists>lsd. parseLogicalScreenDescriptor buffer = Inr lsd
           \<and> backgroundColorIndex lsd = at buffer 11
           \<and> pixelAspectRatio lsd = at buffer 12
           \<and> (length buffer = 10 \<longrightarrow>
                 \<not> globalColorTableFlag lsd \<and> colorResolution lsd = 0
                 \<and> colorResolutionValue lsd = 2 \<and> \<not> sortFlag lsd
                 \<and> backgroundColorIndex lsd = None \<and> pixelAspectRatio lsd = None)))
   \<and> parseHeaderBlock toString buffer =
        \<lparr>signature = toString (take 3 buffer), version = toString (take 3 (drop 3 buffer))\<rparr>"
proof (intro conjI impI)
  assume "length buffer < 10"
  then show "parseLogicalScreenDescriptor buffer = Inl RangeError"
    by (rule parseLogicalScreenDescriptor_short)
next
  assume l: "10 \<le> length buffer"
  show "\<exists>lsd. parseLogicalScreenDescriptor buffer = Inr lsd
           \<and> backgroundColorIndex lsd = at buffer 11
           \<and> pixelAspectRatio lsd = at buffer 12
           \<and> (length buffer = 10 \<longrightarrow>
                 \<not> globalColorTableFlag lsd \<and> colorResolution lsd = 0
                 \<and> colorResolutionValue lsd = 2 \<and> \<not> sortFlag lsd
                 \<and> backgroundColorIndex lsd = None \<and> pixelAspectRatio lsd = None)"
    unfolding parseLogicalScreenDescriptor_10 [OF l]
    by (simp add: at_None bitand_None Boolean_def)
next
  show "parseHeaderBlock toString buffer =
        \<lparr>signature = toString (take 3 buffer), version = toString (take 3 (drop 3 buffer))\<rparr>"
    by (simp add: parseHeaderBlock_def subarray_def)
qed

text \<open>
  The claim as stated fails on a buffer of 10 bytes, which the descriptor decoder turns
  into a record with two undefined fields, and on a buffer of 4 bytes, which the header
  decoder turns into a signature and a one-character version.
\<close>

theorem truncated_buffer_no_failure:
  "length [71, 73, 70, 56, 57, 97, 1, 0, 1, 0 :: 8 word] < 13 \<and>
   parseLogicalScreenDescriptor [71, 73, 70, 56, 57, 97, 1, 0, 1, 0] =
     Inr \<lparr>width = 1, height = 1, globalColorTableFlag = False, colorResolution = 0,
          colorResolutionValue = 2, sortFlag = False, backgroundColorIndex = None,
          pixelAspectRatio = None\<rparr> \<and>
   length [71, 73, 70, 56 :: 8 word] < 6 \<and>
   parseHeaderBlock ascii [71, 73, 70, 56] = \<lparr>signature = ''GIF'', version = ''8''\<rparr>"
  by code_simp

theorem truncated_buffer_decoding_witness:
  "length [71, 73, 70, 56 :: 8 word] < 10 \<and>
   parseLogicalScreenDescriptor [71, 73, 70, 56] = Inl RangeError \<and>
   10 \<le> length [71, 73, 70, 56, 57, 97, 1, 0, 1, 0, 0x91, 7 :: 8 word] \<and>
   map_sum id backgroundColorIndex
     (parseLogicalScreenDescriptor [71, 73, 70, 56, 57, 97, 1, 0, 1, 0, 0x91, 7]) = Inr (Some 7) \<and>
   map_sum id pixelAspectRatio
     (parseLogicalScreenDescriptor [71, 73, 70, 56, 57, 97, 1, 0, 1, 0, 0x91, 7]) = Inr None \<and>
   length [71, 73, 70, 56, 57, 97, 1, 0, 1, 0 :: 8 word] = 10 \<and>
   map_sum id colorResolutionValue
     (parseLogicalScreenDescriptor [71, 73, 70, 56, 57, 97, 1, 0, 1, 0]) = Inr 2"
  using truncated_buffer_decoding [of "[71, 73, 70, 56]" ascii]
        truncated_buffer_decoding [of "[71, 73, 70, 56, 57, 97, 1, 0, 1, 0, 0x91, 7]" ascii]
        truncated_buffer_decoding [of "[71, 73, 70, 56, 57, 97, 1, 0, 1, 0]" ascii]
  by (auto simp: at_def)

section \<open>The colour table\<close>

lemma parseColorTable_for_whole:
  assumes "(length buffer - i) mod 3 = 0" and "i \<le> length buffer"
  shows "\<exists>cs. parseColorTable_for c buffer i colors = Inr (colors @ cs)
           \<and> length cs = (length buffer - i) div 3
           \<and> (\<forall>k < length cs. rgbValues (cs ! k) =
                 \<lparr>r = unat (buffer ! (i + 3 * k)),
                  g = unat (buffer ! (i + 3 * k + 1)),
                  b = unat (buffer ! (i + 3 * k + 2))\<rparr>)"
  using assms
proof (induction c buffer i colors rule: parseColorTable_for.induct)
  case (1 c buffer i colors)
  show ?case
  proof (cases "i < length buffer")
    case False
    then show ?thesis using "1.prems" by (simp add: parseColorTable_for.simps)
  next
    case True
    with "1.prems" have len: "i + 3 \<le> length buffer" by presburger
    let ?col = "\<lparr>rgbValues = \<lparr>r = unat (buffer ! i), g = unat (buffer ! (i + 1)),
                               b = unat (buffer ! (i + 2))\<rparr>,
                  labValues = c (unat (buffer ! i)) (unat (buffer ! (i + 1))) (unat (buffer ! (i + 2))),
                  hexValue = \<lparr>value = ''#'' @ toString16 (unat (buffer ! i))
                      @ toString16 (unat (buffer ! (i + 1))) @ toString16 (unat (buffer ! (i + 2)))\<rparr>\<rparr>"
    have a0: "at buffer i = Some (unat (buffer ! i))"
      and a1: "at buffer (i + 1) = Some (unat (buffer ! (i + 1)))"
      and a2: "at buffer (i + 2) = Some (unat (buffer ! (i + 2)))"
      using len by (simp_all add: at_Some)
    have step: "parseColorTable_for c buffer i colors =
                parseColorTable_for c buffer (i + 3) (colors @ [?col])"
      by (subst parseColorTable_for.simps) (simp only: True if_True a0 a1 a2 option.case)
    from "1.prems" len have m: "(length buffer - (i + 3)) mod 3 = 0" by presburger
    from "1.IH" [OF True a0 a1 a2 m len]
    obtain cs where cs: "parseColorTable_for c buffer (i + 3) (colors @ [?col]) = Inr ((colors @ [?col]) @ cs)"
      and lcs: "length cs = (length buffer - (i + 3)) div 3"
      and rgb: "\<forall>k < length cs. rgbValues (cs ! k) =
                 \<lparr>r = unat (buffer ! (i + 3 + 3 * k)),
                  g = unat (buffer ! (i + 3 + 3 * k + 1)),
                  b = unat (buffer ! (i + 3 + 3 * k + 2))\<rparr>"
      by blast
    have l: "length (?col # cs) = (length buffer - i) div 3"
      using lcs len "1.prems" by simp
    have "\<forall>k < length (?col # cs). rgbValues ((?col # cs) ! k) =
                 \<lparr>r = unat (buffer ! (i + 3 * k)),
                  g = unat (buffer ! (i + 3 * k + 1)),
                  b = unat (buffer ! (i + 3 * k + 2))\<rparr>"
    proof (intro allI impI)
      fix k assume k: "k < length (?col # cs)"
      show "rgbValues ((?col # cs) ! k) =
                 \<lparr>r = unat (buffer ! (i + 3 * k)),
                  g = unat (buffer ! (i + 3 * k + 1)),
                  b = unat (buffer ! (i + 3 * k + 2))\<rparr>"
      proof (cases k)
        case 0
        then show ?thesis by simp
      next
        case (Suc j)
        with k have "j < length cs" by simp
        with rgb have "rgbValues (cs ! j) =
                 \<lparr>r = unat (buffer ! (i + 3 + 3 * j)),
                  g = unat (buffer ! (i + 3 + 3 * j + 1)),
                  b = unat (buffer ! (i + 3 + 3 * j + 2))\<rparr>" by blast
        then show ?thesis using Suc by (simp add: add.assoc)
      qed
    qed
    with l step cs show ?thesis by (intro exI [of _ "?col # cs"]) simp
  qed
qed

lemma parseColorTable_for_partial:
  assumes "(length buffer - i) mod 3 \<noteq> 0" and "i \<le> length buffer"
  shows "parseColorTable_for c buffer i colors = Inl TypeError"
  using assms
proof (induction c buffer i colors rule: parseColorTable_for.induct)
  case (1 c buffer i colors)
  from "1.prems" have True: "i < length buffer" by (cases "i = length buffer") auto
  show ?case
  proof (cases "i + 3 \<le> length buffer")
    case True
    have a0: "at buffer i = Some (unat (buffer ! i))"
      and a1: "at buffer (i + 1) = Some (unat (buffer ! (i + 1)))"
      and a2: "at buffer (i + 2) = Some (unat (buffer ! (i + 2)))"
      using True by (simp_all add: at_Some)
    from "1.prems" True have m: "(length buffer - (i + 3)) mod 3 \<noteq> 0" by presburger
    from True have lt: "i < length buffer" by simp
    show ?thesis
      using "1.IH" [OF lt a0 a1 a2 m True]
      by (subst parseColorTable_for.simps) (simp only: lt if_True a0 a1 a2 option.case)
  next
    case False
    then have "at buffer (i + 2) = None"
      by (simp add: at_def)
    then show ?thesis
      by (subst parseColorTable_for.simps) (simp only: True if_True option.case split: option.split, simp)
  qed
qed

text \<open>
  C7, as the code has it. For every slice whose length is a multiple of 3 the decoder
  returns exactly \<open>length / 3\<close> entries, one per triple and in order, and every
  channel of entry \<open>k\<close> is a byte of the slice (offsets \<open>3k\<close>, \<open>3k + 1\<close>,
  \<open>3k + 2\<close>, all inside it). When the length is not a multiple of 3 the partial triple
  is not dropped: reading its missing channel gives \<open>undefined\<close>, the call of
  \<open>toString\<close> on it throws a \<open>TypeError\<close>, and no table is returned.
\<close>

theorem parseColorTable_triples:
  "(length buffer mod 3 = 0 \<longrightarrow>
      (\<exists>colors. parseColorTable c buffer = Inr colors
         \<and> length colors = length buffer div 3
         \<and> (\<forall>k < length colors. 3 * k + 2 < length buffer \<and> rgbValues (colors ! k) =
              \<lparr>r = unat (buffer ! (3 * k)),
               g = unat (buffer ! (3 * k + 1)),
               b = unat (buffer ! (3 * k + 2))\<rparr>)))
   \<and> (length buffer mod 3 \<noteq> 0 \<longrightarrow> parseColorTable c buffer = Inl TypeError)"
proof (intro conjI impI)
  assume m: "length buffer mod 3 = 0"
  from parseColorTable_for_whole [of buffer 0 c "[]"] m
  obtain cs where cs: "parseColorTable c buffer = Inr cs"
    and l: "length cs = length buffer div 3"
    and rgb: "\<forall>k < length cs. rgbValues (cs ! k) =
              \<lparr>r = unat (buffer ! (3 * k)),
               g = unat (buffer ! (3 * k + 1)),
               b = unat (buffer ! (3 * k + 2))\<rparr>"
    by (auto simp: parseColorTable_def)
  have "\<forall>k < length cs. 3 * k + 2 < length buffer" using l m by auto
  with cs l rgb
  show "\<exists>colors. parseColorTable c buffer = Inr colors
         \<and> length colors = length buffer div 3
         \<and> (\<forall>k < length colors. 3 * k + 2 < length buffer \<and> rgbValues (colors ! k) =
              \<lparr>r = unat (buffer ! (3 * k)),
               g = unat (buffer ! (3 * k + 1)),
               b = unat (buffer ! (3 * k + 2))\<rparr>)"
    by auto
next
  assume "length buffer mod 3 \<noteq> 0"
  then show "parseColorTable c buffer = Inl TypeError"
    using parseColorTable_for_partial [of buffer 0 c "[]"] by (simp add: parseColorTable_def)
qed

theorem parseColorTable_triples_witness:
  "length [1, 2, 3, 4, 5, 6 :: 8 word] mod 3 = 0 \<and>
   map_sum id length (parseColorTable noLab [1, 2, 3, 4, 5, 6]) = Inr 2 \<and>
   length [1, 2, 3, 4 :: 8 word] mod 3 \<noteq> 0 \<and>
   parseColorTable noLab [1, 2, 3, 4] = Inl TypeError"
  using parseColorTable_triples [of "[1, 2, 3, 4, 5, 6]" noLab]
        parseColorTable_triples [of "[1, 2, 3, 4]" noLab]
  by auto

text \<open>
  The claim as stated fails on a slice of 4 bytes: it promises \<open>4 div 3 = 1\<close> entry, and
  the decoder throws.
\<close>

theorem parseColorTable_partial_triple_throws:
  "length [1, 2, 3, 4 :: 8 word] div 3 = 1 \<and>
   parseColorTable noLab [1, 2, 3, 4] = Inl TypeError"
  by (simp add: parseColorTable_def parseColorTable_for.simps at_def)

text \<open>
  C3. The hex string is \<open>'#' + red.toString(16) + green.toString(16) + blue.toString(16)\<close>
  with no padding: for the triple (1, 2, 255) the decoder returns \<open>#12ff\<close>, five
  characters, where the claim requires \<open>#0102ff\<close>.
\<close>

theorem hexValue_not_padded:
  "parseColorTable noLab [1, 2, 255] =
     Inr [\<lparr>rgbValues = \<lparr>r = 1, g = 2, b = 255\<rparr>, labValues = (),
           hexValue = \<lparr>value = ''#12ff''\<rparr>\<rparr>]"
  by (simp add: parseColorTable_def parseColorTable_for.simps at_def toString16.simps
        hexDigit_def noLab_def)

section \<open>Concrete evaluations\<close>

lemmas eval_defs =
  parseImages_def parseImages_while.simps at_def subarray_def parseImageDescriptor_def
  readUInt16LE_def bitand_def Boolean_def parseImageData_def parseImageData_while.simps
  parseImageData_for.simps Buffer_from_def Let_def

lemma ascii_GIF89a: "ascii [71, 73, 70] = ''GIF''" "ascii [56, 57, 97] = ''89a''"
  by code_simp+

section \<open>The global colour table\<close>

lemma parseColorTable_whole_length:
  assumes "length buffer mod 3 = 0"
  shows "\<exists>colors. parseColorTable c buffer = Inr colors \<and> length colors = length buffer div 3"
  using parseColorTable_for_whole [of buffer 0 c "[]"] assms
  by (auto simp: parseColorTable_def)

lemma parseGlobalColorTable_size:
  assumes "hasGlobalColorTable this = Some True" and "logicalScreenDescriptor this = Some lsd"
    and "13 + 3 * 2 ^ (colorResolution lsd + 1) \<le> length buffer"
  shows "\<exists>colors. parseGlobalColorTable c this buffer = Inr colors
           \<and> length colors = 2 ^ (colorResolution lsd + 1)"
proof -
  let ?n = "3 * 2 ^ (colorResolution lsd + 1) :: nat"
  have l: "length (subarray buffer 13 (13 + ?n)) = ?n"
    using assms(3) by (simp add: subarray_def)
  have g: "parseGlobalColorTable c this buffer = parseColorTable c (subarray buffer 13 (13 + ?n))"
    by (simp only: parseGlobalColorTable_def Let_def assms(1) assms(2) option.case
          not_True_eq_False refl if_False)
  have "length (subarray buffer 13 (13 + ?n)) mod 3 = 0" by (simp only: l) simp
  from parseColorTable_whole_length [OF this, of c]
  show ?thesis by (simp only: g l) simp
qed

text \<open>
  C2. The table is sized by \<open>colorResolution\<close>, bits 6 to 4 of the packed byte, not by
  the size exponent in bits 2 to 0. With the packed byte \<open>0x81\<close> (flag set,
  \<open>colorResolution = 0\<close>, size exponent 1) and twelve table bytes in the buffer, the
  constructor keeps a table of 2 entries where the claim requires \<open>2 ^ (1 + 1) = 4\<close>.
\<close>

theorem globalColorTable_sized_by_colorResolution:
  "constructor ascii noLab
     [71, 73, 70, 56, 57, 97, 1, 0, 1, 0, 0x81, 0, 0,
      1, 1, 1, 2, 2, 2, 3, 3, 3, 4, 4, 4,
      0x3b] =
   Some (Inr \<lparr>binValue =
                Some [71, 73, 70, 56, 57, 97, 1, 0, 1, 0, 0x81, 0, 0,
                      1, 1, 1, 2, 2, 2, 3, 3, 3, 4, 4, 4,
                      0x3b],
              headerBlock = Some \<lparr>signature = ''GIF'', version = ''89a''\<rparr>,
              logicalScreenDescriptor =
                Some \<lparr>width = 1, height = 1, globalColorTableFlag = True,
                      colorResolution = 0, colorResolutionValue = 2, sortFlag = False,
                      backgroundColorIndex = Some 0, pixelAspectRatio = Some 0\<rparr>,
              hasGlobalColorTable = Some True,
              globalColorTable =
                Some [\<lparr>rgbValues = \<lparr>r = 1, g = 1, b = 1\<rparr>, labValues = (),
                        hexValue = \<lparr>value = ''#111''\<rparr>\<rparr>,
                      \<lparr>rgbValues = \<lparr>r = 2, g = 2, b = 2\<rparr>, labValues = (),
                        hexValue = \<lparr>value = ''#222''\<rparr>\<rparr>],
              graphicsControlExtension =
                Some \<lparr>disposalMethod = 6, userInputFlag = False, transparentColorFlag = False,
                      delayTime = 24889, transparentColorIndex = Some 1\<rparr>,
              images = Some []\<rparr>)"
  by (simp add: constructor_def new_GifParser_def parseHeaderBlock_def ascii_GIF89a
        parseLogicalScreenDescriptor_def parseGlobalColorTable_def
        parseGraphicsControlExtension_def parseColorTable_def parseColorTable_for.simps
        toString16.simps hexDigit_def noLab_def eval_defs)

section \<open>The image data\<close>

lemma parseImageData_for_offset:
  "offset \<le> fst (parseImageData_for buffer blockSize i offset acc)"
proof (induction buffer blockSize i offset acc rule: parseImageData_for.induct)
  case (1 buffer blockSize i offset acc)
  show ?case
  proof (cases "case blockSize of None \<Rightarrow> False | Some n \<Rightarrow> i < n")
    case True
    with "1.IH" have "offset + 1 \<le> fst (parseImageData_for buffer blockSize (i + 1) (offset + 1)
             (acc @ [at buffer offset]))" by simp
    with True show ?thesis by (subst parseImageData_for.simps) simp
  next
    case False
    then show ?thesis by (subst parseImageData_for.simps) simp
  qed
qed

lemma at_eq_Some: "at buffer i = Some n \<longleftrightarrow> i < length buffer \<and> unat (buffer ! i) = n"
  by (simp add: at_def)

lemma parseImageData_while_Some_terminator:
  assumes "parseImageData_while buffer offset acc = Some y"
  shows "\<exists>k. offset \<le> k \<and> k < length buffer \<and> buffer ! k = 0"
proof (rule parseImageData_while.raw_induct
         [where P = "\<lambda>buffer offset acc y. \<exists>k. offset \<le> k \<and> k < length buffer \<and> buffer ! k = 0",
          OF _ assms], goal_cases)
  case (1 f buffer offset acc y)
  show ?case
  proof (cases "at buffer offset = Some 0")
    case True
    then have lt: "offset < length buffer" and u: "unat (buffer ! offset) = 0"
      by (simp_all add: at_eq_Some)
    from u have "buffer ! offset = 0" by (rule unat_0_iff [THEN iffD1])
    with lt show ?thesis by blast
  next
    case False
    let ?o = "fst (parseImageData_for buffer (at buffer offset) 0 (offset + 1) acc)"
    let ?a = "snd (parseImageData_for buffer (at buffer offset) 0 (offset + 1) acc)"
    from "1"(2) have "f buffer ?o ?a = Some y"
      by (simp only: False not_False_eq_True if_True)
    from "1"(1) [OF this] obtain k where k: "?o \<le> k" "k < length buffer" "buffer ! k = 0"
      by (elim exE conjE)
    have "offset + 1 \<le> ?o" by (rule parseImageData_for_offset)
    with k(1) have "offset \<le> k" by linarith
    with k(2,3) show ?thesis by (intro exI [of _ k] conjI)
  qed
qed

lemma parseImageData_while_no_terminator:
  assumes "\<forall>k. offset \<le> k \<and> k < length buffer \<longrightarrow> buffer ! k \<noteq> 0"
  shows "parseImageData_while buffer offset acc = None"
proof (cases "parseImageData_while buffer offset acc")
  case None
  then show ?thesis .
next
  case (Some y)
  from parseImageData_while_Some_terminator [OF this]
  obtain k where "offset \<le> k" "k < length buffer" "buffer ! k = 0" by (elim exE conjE)
  with assms show ?thesis by blast
qed

lemma parseImageData_while_past_end:
  assumes "length buffer \<le> offset"
  shows "parseImageData_while buffer offset acc = None"
  using assms by (intro parseImageData_while_no_terminator) auto

lemma parseImages_truncated_image_never_returns:
  "parseImages noLab
     [71, 73, 70, 56, 57, 97, 1, 0, 1, 0, 0, 0, 0,
      0x2c, 0, 0, 0, 0, 1, 0, 1, 0, 0, 0,
      2] = None"
  by (simp add: parseImages_def parseImages_while.simps at_def subarray_def
        parseImageDescriptor_def readUInt16LE_def bitand_def Boolean_def parseImageData_def
        parseImageData_while_past_end)

text \<open>
  C1. \<open>parseImages\<close> skips the LZW minimum code size byte and \<open>parseImageData\<close>
  skips one byte again, so reading starts on the first payload byte and takes it for a
  length. For a descriptor followed by the code size byte 2 and the sub-blocks
  \<open>[3, 1, 2, 3]\<close>, \<open>[2, 4, 5]\<close>, \<open>[0]\<close> the image data is \<open>[2, 2, 4, 5]\<close>
  where the claim requires \<open>[1, 2, 3, 4, 5]\<close>.
\<close>

theorem imageData_loses_first_length_byte:
  "parseImages noLab
     [71, 73, 70, 56, 57, 97, 1, 0, 1, 0, 0, 0, 0,
      0x2c, 0, 0, 0, 0, 1, 0, 1, 0, 0, 0,
      2,
      3, 1, 2, 3,
      2, 4, 5,
      0,
      0x3b] =
   Some (Inr [\<lparr>imageDescriptor =
                  \<lparr>imageLeftPosition = 0, imageTopPosition = 0, imageWidth = 1,
                   imageHeight = 1, localColorTableFlag = False, interlaceFlag = False,
                   localColorTableSize = 0\<rparr>,
                localColorTable = None,
                imageData = [2, 2, 4, 5]\<rparr>])"
  by (simp add: eval_defs)

section \<open>The image scan\<close>

lemma at_neq_byte:
  assumes "i < length buffer" and "buffer ! i \<noteq> w"
  shows "at buffer i \<noteq> Some (unat w)"
  using assms by (simp add: at_def word_unat_eq_iff)

lemma parseImages_while_no_separator:
  assumes "\<forall>i. offset \<le> i \<and> i < length buffer \<longrightarrow> buffer ! i \<noteq> 0x2c"
  shows "parseImages_while c buffer offset imgs = Some (Inr imgs)"
  using assms
proof (induction "length buffer - offset" arbitrary: offset)
  case 0
  then show ?case by (subst parseImages_while.simps) simp
next
  case (Suc n)
  then have lt: "offset < length buffer" by simp
  with Suc.prems have "buffer ! offset \<noteq> 0x2c" by simp
  with lt have ne: "at buffer offset \<noteq> Some 0x2c"
    using at_neq_byte [of offset buffer "0x2c"] by simp
  from Suc.hyps(2) have n: "n = length buffer - (offset + 1)" by simp
  from Suc.prems have rest: "\<forall>i. offset + 1 \<le> i \<and> i < length buffer \<longrightarrow> buffer ! i \<noteq> 0x2c"
    by simp
  have "parseImages_while c buffer offset imgs = parseImages_while c buffer (offset + 1) imgs"
    by (subst parseImages_while.simps) (simp only: lt ne if_True not_False_eq_True)
  also have "\<dots> = Some (Inr imgs)" by (rule Suc.hyps(1) [OF n rest])
  finally show ?case .
qed

text \<open>
  When no byte \<open>0x2C\<close> stands at offset 7 or above, the scan returns, and returns the
  empty sequence of images.
\<close>

lemma parseImages_no_separator_from_7:
  assumes "0x2c \<notin> set (drop 7 buffer)"
  shows "parseImages c buffer = Some (Inr [])"
proof -
  have "\<forall>i. 7 \<le> i \<and> i < length buffer \<longrightarrow> buffer ! i \<noteq> 0x2c"
  proof (intro allI impI)
    fix i
    assume i: "7 \<le> i \<and> i < length buffer"
    then have "drop 7 buffer ! (i - 7) = buffer ! i" by simp
    moreover from i have "i - 7 < length (drop 7 buffer)" by auto
    then have "drop 7 buffer ! (i - 7) \<in> set (drop 7 buffer)" by (rule nth_mem)
    ultimately show "buffer ! i \<noteq> 0x2c" using assms by metis
  qed
  then show ?thesis
    unfolding parseImages_def by (rule parseImages_while_no_separator)
qed

text \<open>
  C6. The scan starts at offset 7, inside the logical screen descriptor. A buffer whose
  only \<open>0x2C\<close> byte is the low byte of the screen height, at offset 8, is scanned as if
  an image started there: \<open>parseImages\<close> returns one image.
\<close>

theorem scan_starts_inside_screen_descriptor:
  "parseImages noLab
     [71, 73, 70, 56, 57, 97, 1, 0, 0x2c, 0, 0, 0, 0,
      0, 0, 0, 0, 0, 0, 0, 0, 0, 0x3b] =
   Some (Inr [\<lparr>imageDescriptor =
                  \<lparr>imageLeftPosition = 0, imageTopPosition = 0, imageWidth = 0,
                   imageHeight = 0, localColorTableFlag = False, interlaceFlag = False,
                   localColorTableSize = 0\<rparr>,
                localColorTable = None,
                imageData = []\<rparr>])"
  by (simp add: eval_defs)

text \<open>
  C9. Because the scan starts at offset 7, a buffer with no image descriptor is not always
  scanned to the empty sequence. The buffer below is a header, a logical screen
  descriptor of height 44 and the trailer: it has no byte \<open>0x2C\<close> at offset 13 or
  above. The scan takes the low byte of the height, at offset 8, for an image separator,
  reads a descriptor from the five bytes that follow, and fails with the
  \<open>RangeError\<close> of \<open>readUInt16LE\<close>.
\<close>

theorem image_less_buffer_scan_fails:
  "0x2c \<notin> set (drop 13 [71, 73, 70, 56, 57, 97, 1, 0, 0x2c, 0, 0, 0, 0, 0x3b :: 8 word]) \<and>
   parseImages noLab [71, 73, 70, 56, 57, 97, 1, 0, 0x2c, 0, 0, 0, 0, 0x3b] =
     Some (Inl RangeError)"
  by (simp add: eval_defs)

section \<open>The constructor and the accessors\<close>

text \<open>
  C10. When the constructor returns an object, every accessor returns the value the
  constructor decoded and none throws. The global colour table returned is the result of
  \<open>parseGlobalColorTable\<close>: the table decoded from offset 13 when
  \<open>globalColorTableFlag\<close> is true, the empty sequence when it is false.
\<close>

theorem constructor_accessors:
  assumes "constructor toString c buffer = Some (Inr this)"
  shows "getBinValue this = Inr buffer
     \<and> getHeaderBlock this = Inr (parseHeaderBlock toString buffer)
     \<and> (\<exists>lsd. parseLogicalScreenDescriptor buffer = Inr lsd
           \<and> getLogicalScreenDescriptor this = Inr lsd
           \<and> (\<exists>colors. getGlobalColorTable this = Inr colors
                 \<and> parseGlobalColorTable c this buffer = Inr colors
                 \<and> (globalColorTableFlag lsd \<longrightarrow>
                       parseColorTable c
                         (subarray buffer 13 (13 + 3 * 2 ^ (colorResolution lsd + 1))) = Inr colors)
                 \<and> (\<not> globalColorTableFlag lsd \<longrightarrow> colors = [])))
     \<and> (\<exists>gce. parseGraphicsControlExtension buffer = Inr gce
           \<and> getGraphicsControlExtension this = Inr gce)
     \<and> (\<exists>imgs. parseImages c buffer = Some (Inr imgs) \<and> getImages this = Inr imgs)"
proof (cases "parseLogicalScreenDescriptor buffer")
  case (Inl e)
  with assms show ?thesis by (simp add: constructor_def)
next
  case lsd: (Inr lsd)
  let ?this4 = "new_GifParser\<lparr>binValue := Some buffer,
                   headerBlock := Some (parseHeaderBlock toString buffer),
                   logicalScreenDescriptor := Some lsd,
                   hasGlobalColorTable := Some (globalColorTableFlag lsd)\<rparr>
                 :: ('a, 'b) GifParser"
  show ?thesis
  proof (cases "parseGlobalColorTable c ?this4 buffer")
    case (Inl e)
    with assms lsd show ?thesis by (simp add: constructor_def)
  next
    case colors: (Inr colors)
    have empty: "\<not> globalColorTableFlag lsd \<longrightarrow> colors = []"
      using colors by (auto simp: parseGlobalColorTable_def)
    have table: "globalColorTableFlag lsd \<longrightarrow>
        parseColorTable c (subarray buffer 13 (13 + 3 * 2 ^ (colorResolution lsd + 1))) = Inr colors"
      using colors by (auto simp: parseGlobalColorTable_def Let_def)
    show ?thesis
    proof (cases "parseGraphicsControlExtension buffer")
      case (Inl e)
      with assms lsd colors show ?thesis by (simp add: constructor_def)
    next
      case gce: (Inr gce)
      show ?thesis
      proof (cases "parseImages c buffer")
        case None
        with assms lsd colors gce show ?thesis by (simp add: constructor_def)
      next
        case (Some res)
        show ?thesis
        proof (cases res)
          case (Inl e)
          with Some assms lsd colors gce show ?thesis by (simp add: constructor_def)
        next
          case (Inr imgs)
          with Some assms lsd colors gce
          have obj: "this = ?this4\<lparr>globalColorTable := Some colors,
                  graphicsControlExtension := Some gce, images := Some imgs\<rparr>"
            by (simp add: constructor_def)
          have same: "parseGlobalColorTable c this buffer = parseGlobalColorTable c ?this4 buffer"
            by (simp add: obj parseGlobalColorTable_def)
          show ?thesis
            using lsd gce Some Inr empty table colors
            by (simp add: same)
               (simp add: obj getBinValue_def getHeaderBlock_def getLogicalScreenDescriptor_def
                  getGlobalColorTable_def getGraphicsControlExtension_def getImages_def)
        qed
      qed
    qed
  qed
qed


theorem constructor_accessors_witness:
  "constructor ascii noLab [71, 73, 70, 56, 57, 97, 1, 0, 1, 0, 0, 0, 0, 0x3b] =
     Some (Inr \<lparr>binValue = Some [71, 73, 70, 56, 57, 97, 1, 0, 1, 0, 0, 0, 0, 0x3b],
                headerBlock = Some \<lparr>signature = ''GIF'', version = ''89a''\<rparr>,
                logicalScreenDescriptor =
                  Some \<lparr>width = 1, height = 1, globalColorTableFlag = False,
                        colorResolution = 0, colorResolutionValue = 2, sortFlag = False,
                        backgroundColorIndex = Some 0, pixelAspectRatio = Some 0\<rparr>,
                hasGlobalColorTable = Some False,
                globalColorTable = Some [],
                graphicsControlExtension =
                  Some \<lparr>disposalMethod = 6, userInputFlag = False, transparentColorFlag = False,
                        delayTime = 24889, transparentColorIndex = Some 1\<rparr>,
                images = Some []\<rparr>) \<and>
   map_option (map_sum id getBinValue) (constructor ascii noLab [71, 73, 70, 56, 57, 97, 1, 0, 1, 0, 0, 0, 0, 0x3b]) =
     Some (Inr (Inr [71, 73, 70, 56, 57, 97, 1, 0, 1, 0, 0, 0, 0, 0x3b])) \<and>
   map_option (map_sum id getHeaderBlock) (constructor ascii noLab [71, 73, 70, 56, 57, 97, 1, 0, 1, 0, 0, 0, 0, 0x3b]) =
     Some (Inr (Inr \<lparr>signature = ''GIF'', version = ''89a''\<rparr>)) \<and>
   map_option (map_sum id getLogicalScreenDescriptor) (constructor ascii noLab [71, 73, 70, 56, 57, 97, 1, 0, 1, 0, 0, 0, 0, 0x3b]) =
     Some (Inr (Inr \<lparr>width = 1, height = 1, globalColorTableFlag = False,
                       colorResolution = 0, colorResolutionValue = 2, sortFlag = False,
                       backgroundColorIndex = Some 0, pixelAspectRatio = Some 0\<rparr>)) \<and>
   map_option (map_sum id getGlobalColorTable) (constructor ascii noLab [71, 73, 70, 56, 57, 97, 1, 0, 1, 0, 0, 0, 0, 0x3b]) =
     Some (Inr (Inr [])) \<and>
   map_option (map_sum id getGraphicsControlExtension) (constructor ascii noLab [71, 73, 70, 56, 57, 97, 1, 0, 1, 0, 0, 0, 0, 0x3b]) =
     Some (Inr (Inr \<lparr>disposalMethod = 6, userInputFlag = False, transparentColorFlag = False,
                       delayTime = 24889, transparentColorIndex = Some 1\<rparr>)) \<and>
   map_option (map_sum id getImages) (constructor ascii noLab [71, 73, 70, 56, 57, 97, 1, 0, 1, 0, 0, 0, 0, 0x3b]) =
     Some (Inr (Inr [])) \<and>
   constructor ascii noLab
       [71, 73, 70, 56, 57, 97, 1, 0, 1, 0, 0x90, 0, 0,
        1, 1, 1, 2, 2, 2, 3, 3, 3, 4, 4, 4, 0x3b] =
     Some (Inr \<lparr>binValue =
                  Some [71, 73, 70, 56, 57, 97, 1, 0, 1, 0, 0x90, 0, 0,
                        1, 1, 1, 2, 2, 2, 3, 3, 3, 4, 4, 4, 0x3b],
                headerBlock = Some \<lparr>signature = ''GIF'', version = ''89a''\<rparr>,
                logicalScreenDescriptor =
                  Some \<lparr>width = 1, height = 1, globalColorTableFlag = True,
                        colorResolution = 1, colorResolutionValue = 4, sortFlag = False,
                        backgroundColorIndex = Some 0, pixelAspectRatio = Some 0\<rparr>,
                hasGlobalColorTable = Some True,
                globalColorTable =
                  Some [\<lparr>rgbValues = \<lparr>r = 1, g = 1, b = 1\<rparr>, labValues = (),
                          hexValue = \<lparr>value = ''#111''\<rparr>\<rparr>,
                        \<lparr>rgbValues = \<lparr>r = 2, g = 2, b = 2\<rparr>, labValues = (),
                          hexValue = \<lparr>value = ''#222''\<rparr>\<rparr>,
                        \<lparr>rgbValues = \<lparr>r = 3, g = 3, b = 3\<rparr>, labValues = (),
                          hexValue = \<lparr>value = ''#333''\<rparr>\<rparr>,
                        \<lparr>rgbValues = \<lparr>r = 4, g = 4, b = 4\<rparr>, labValues = (),
                          hexValue = \<lparr>value = ''#444''\<rparr>\<rparr>],
                graphicsControlExtension =
                  Some \<lparr>disposalMethod = 6, userInputFlag = False, transparentColorFlag = False,
                        delayTime = 24889, transparentColorIndex = Some 1\<rparr>,
                images = Some []\<rparr>) \<and>
   map_option (map_sum id getGlobalColorTable)
     (constructor ascii noLab
       [71, 73, 70, 56, 57, 97, 1, 0, 1, 0, 0x90, 0, 0,
        1, 1, 1, 2, 2, 2, 3, 3, 3, 4, 4, 4, 0x3b]) =
     Some (Inr (Inr [\<lparr>rgbValues = \<lparr>r = 1, g = 1, b = 1\<rparr>, labValues = (),
                       hexValue = \<lparr>value = ''#111''\<rparr>\<rparr>,
                     \<lparr>rgbValues = \<lparr>r = 2, g = 2, b = 2\<rparr>, labValues = (),
                       hexValue = \<lparr>value = ''#222''\<rparr>\<rparr>,
                     \<lparr>rgbValues = \<lparr>r = 3, g = 3, b = 3\<rparr>, labValues = (),
                       hexValue = \<lparr>value = ''#333''\<rparr>\<rparr>,
                     \<lparr>rgbValues = \<lparr>r = 4, g = 4, b = 4\<rparr>, labValues = (),
                       hexValue = \<lparr>value = ''#444''\<rparr>\<rparr>]))"
proof -
  have c1: "constructor ascii noLab [71, 73, 70, 56, 57, 97, 1, 0, 1, 0, 0, 0, 0, 0x3b] =
     Some (Inr \<lparr>binValue = Some [71, 73, 70, 56, 57, 97, 1, 0, 1, 0, 0, 0, 0, 0x3b],
                headerBlock = Some \<lparr>signature = ''GIF'', version = ''89a''\<rparr>,
                logicalScreenDescriptor =
                  Some \<lparr>width = 1, height = 1, globalColorTableFlag = False,
                        colorResolution = 0, colorResolutionValue = 2, sortFlag = False,
                        backgroundColorIndex = Some 0, pixelAspectRatio = Some 0\<rparr>,
                hasGlobalColorTable = Some False,
                globalColorTable = Some [],
                graphicsControlExtension =
                  Some \<lparr>disposalMethod = 6, userInputFlag = False, transparentColorFlag = False,
                        delayTime = 24889, transparentColorIndex = Some 1\<rparr>,
                images = Some []\<rparr>)"
    by (simp add: constructor_def new_GifParser_def parseHeaderBlock_def ascii_GIF89a
          parseLogicalScreenDescriptor_def parseGlobalColorTable_def
          parseGraphicsControlExtension_def eval_defs)
  have c2: "constructor ascii noLab
       [71, 73, 70, 56, 57, 97, 1, 0, 1, 0, 0x90, 0, 0,
        1, 1, 1, 2, 2, 2, 3, 3, 3, 4, 4, 4, 0x3b] =
     Some (Inr \<lparr>binValue =
                  Some [71, 73, 70, 56, 57, 97, 1, 0, 1, 0, 0x90, 0, 0,
                        1, 1, 1, 2, 2, 2, 3, 3, 3, 4, 4, 4, 0x3b],
                headerBlock = Some \<lparr>signature = ''GIF'', version = ''89a''\<rparr>,
                logicalScreenDescriptor =
                  Some \<lparr>width = 1, height = 1, globalColorTableFlag = True,
                        colorResolution = 1, colorResolutionValue = 4, sortFlag = False,
                        backgroundColorIndex = Some 0, pixelAspectRatio = Some 0\<rparr>,
                hasGlobalColorTable = Some True,
                globalColorTable =
                  Some [\<lparr>rgbValues = \<lparr>r = 1, g = 1, b = 1\<rparr>, labValues = (),
                          hexValue = \<lparr>value = ''#111''\<rparr>\<rparr>,
                        \<lparr>rgbValues = \<lparr>r = 2, g = 2, b = 2\<rparr>, labValues = (),
                          hexValue = \<lparr>value = ''#222''\<rparr>\<rparr>,
                        \<lparr>rgbValues = \<lparr>r = 3, g = 3, b = 3\<rparr>, labValues = (),
                          hexValue = \<lparr>value = ''#333''\<rparr>\<rparr>,
                        \<lparr>rgbValues = \<lparr>r = 4, g = 4, b = 4\<rparr>, labValues = (),
                          hexValue = \<lparr>value = ''#444''\<rparr>\<rparr>],
                graphicsControlExtension =
                  Some \<lparr>disposalMethod = 6, userInputFlag = False, transparentColorFlag = False,
                        delayTime = 24889, transparentColorIndex = Some 1\<rparr>,
                images = Some []\<rparr>)"
    by (simp add: constructor_def new_GifParser_def parseHeaderBlock_def ascii_GIF89a
          parseLogicalScreenDescriptor_def parseGlobalColorTable_def
          parseGraphicsControlExtension_def parseColorTable_def parseColorTable_for.simps
          toString16.simps hexDigit_def noLab_def eval_defs)
  show ?thesis
    using constructor_accessors [OF c1] constructor_accessors [OF c2]
    by (simp only: c1 c2 option.map map_sum.simps id_apply)
       (simp add: getBinValue_def getHeaderBlock_def getLogicalScreenDescriptor_def
          getGlobalColorTable_def getGraphicsControlExtension_def getImages_def)
qed

end
